theory Spec2Isabelle
  imports Main
begin

section \<open>Configuration parsing: \<^verbatim>\<open>colav_simulator/common/config_parsing.py\<close>\<close>

subsection \<open>Dictionaries\<close>

text \<open>
  A Python \<^verbatim>\<open>dict\<close> has unique keys and iterates in insertion order, so it is an
  association list read from the front. The module never looks inside a value, so the
  value type stays a parameter; the keys of the settings, of the schema and of the
  keyword arguments are strings.
\<close>

type_synonym 'v dict = "(string \<times> 'v) list"

definition dict_keys :: "'v dict \<Rightarrow> string list" where
  "dict_keys d = map fst d"

text \<open>
  \<^verbatim>\<open>d[key] = value\<close>: a key that is present keeps its position and gets the new value,
  a key that is absent is appended.
\<close>

fun setitem :: "'v dict \<Rightarrow> string \<Rightarrow> 'v \<Rightarrow> 'v dict" where
  "setitem [] key v = [(key, v)]"
| "setitem ((k, w) # d) key v = (if k = key then (key, v) # d else (k, w) # setitem d key v)"

text \<open>The values a YAML file can hold, for the concrete inputs below.\<close>

datatype yaml =
    YNull
  | YBool bool
  | YInt int
  | YStr string
  | YSeq "yaml list"
  | YMap "(string \<times> yaml) list"

subsection \<open>The store\<close>

text \<open>
  Dictionaries are objects: \<^verbatim>\<open>override\<close> writes into the one it is given and hands the
  same one back. The store maps an address to the dictionary that lives there;
  \<open>next_addr\<close> is the first address not yet handed out.
\<close>

type_synonym addr = nat

record 'v heap =
  cells :: "addr \<Rightarrow> 'v dict"
  next_addr :: addr

definition alloc :: "'v dict \<Rightarrow> 'v heap \<Rightarrow> addr \<times> 'v heap" where
  "alloc d h =
     (next_addr h, h\<lparr>cells := (cells h)(next_addr h := d), next_addr := Suc (next_addr h)\<rparr>)"

definition empty_heap :: "'v heap" where
  "empty_heap = \<lparr>cells = (\<lambda>a. []), next_addr = 0\<rparr>"

subsection \<open>Exceptions\<close>

text \<open>
  The module raises \<^verbatim>\<open>ValueError\<close> with a message; the message of a failed rule check
  is the text \<^verbatim>\<open>Cerberus validation Error: \<close> followed by the engine's error report.
  \<open>TypeError\<close> is what Python raises when a call passes a keyword argument named like
  a parameter that a positional argument has already filled. \<open>FileError\<close> is the reader's
  failure. \<open>LibraryError\<close> is an exception raised inside one of the two libraries (the
  rule engine refusing a schema it does not understand, the object mapper refusing a
  mapping); the module catches nothing, so it passes through.
\<close>

datatype 'e message = Text string | TextWith string 'e

datatype ('e, 'x) exn = ValueError "'e message" | TypeError | FileError | LibraryError 'x

subsection \<open>The rule engine\<close>

text \<open>
  \<^verbatim>\<open>cerberus.Validator\<close> is a library, taken as a parameter. The module uses it in two
  steps.

  \<^verbatim>\<open>Validator(schema)\<close> is handed the caller's schema object, not a copy, and may rewrite
  it in place: cerberus expands rule shortcuts such as \<^verbatim>\<open>anyof_type\<close> inside the rules
  it is given. \<open>on_construct\<close> gives the contents the constructor leaves in the schema
  object.

  \<^verbatim>\<open>validator.validate(settings)\<close> works on a copy of the document and gives a verdict,
  \<open>on_validate\<close>, from the schema as the constructor left it and the document:
  \<open>Conforms\<close> is the call returning true; \<open>Violates errors\<close> is it returning false with
  \<^verbatim>\<open>validator.errors\<close> equal to \<open>errors\<close>; \<open>Refuses x\<close> is the library raising \<open>x\<close>
  itself (a schema it cannot read), which it does after the rewriting.
\<close>

datatype ('e, 'x) verdict = Conforms | Violates 'e | Refuses 'x

record ('v, 'e, 'x) rule_engine =
  on_construct :: "'v dict \<Rightarrow> 'v dict"
  on_validate :: "'v dict \<Rightarrow> 'v dict \<Rightarrow> ('e, 'x) verdict"

text \<open>\<^verbatim>\<open>validator = Validator(schema)\<close>, as an update of the store.\<close>

definition construct_validator :: "('v, 'e, 'x) rule_engine \<Rightarrow> addr \<Rightarrow> 'v heap \<Rightarrow> 'v heap" where
  "construct_validator V schema h =
     h\<lparr>cells := (cells h)(schema := on_construct V (cells h schema))\<rparr>"

text \<open>\<^verbatim>\<open>validator.validate(settings)\<close> with \<^verbatim>\<open>validator.errors\<close>, read off the store.\<close>

definition run_validator ::
  "('v, 'e, 'x) rule_engine \<Rightarrow> addr \<Rightarrow> addr \<Rightarrow> 'v heap \<Rightarrow> ('e, 'x) verdict" where
  "run_validator V schema settings h = on_validate V (cells h schema) (cells h settings)"

subsection \<open>\<^verbatim>\<open>validate\<close>\<close>

text \<open>
  \<^verbatim>\<open>
  def validate(settings: dict, schema: dict) -> None:
      if not settings:
          raise ValueError("Empty settings!")
      if not schema:
          raise ValueError("Empty schema!")
      validator = Validator(schema)
      if not validator.validate(settings):
          raise ValueError(f"Cerberus validation Error: {validator.errors}")
  \<close>
  Both parameters are dictionaries, so \<^verbatim>\<open>not settings\<close> and \<^verbatim>\<open>not schema\<close> test for the
  empty dictionary. Each function takes the store last and returns its outcome with the
  store it leaves. The two guards read only; past them the store is the one the
  constructor of the rule engine leaves.
\<close>

definition validate ::
  "('v, 'e, 'x) rule_engine \<Rightarrow> addr \<Rightarrow> addr \<Rightarrow> 'v heap \<Rightarrow> (('e, 'x) exn + unit) \<times> 'v heap" where
  "validate V settings schema h =
     (if cells h settings = [] then (Inl (ValueError (Text ''Empty settings!'')), h)
      else if cells h schema = [] then (Inl (ValueError (Text ''Empty schema!'')), h)
      else
        let h1 = construct_validator V schema h
        in case run_validator V schema settings h1 of
             Conforms \<Rightarrow> (Inr (), h1)
           | Violates errors \<Rightarrow>
               (Inl (ValueError (TextWith ''Cerberus validation Error: '' errors)), h1)
           | Refuses x \<Rightarrow> (Inl (LibraryError x), h1))"

subsection \<open>\<^verbatim>\<open>extract_valid_sections\<close>\<close>

text \<open>
  \<^verbatim>\<open>
  def extract_valid_sections(schema: dict) -> List[str]:
      """... Raises: ValueError: On empty schema. ..."""
      if schema is None:
          raise ValueError("No configuration schema provided!")
      sections = []
      for section in schema.keys():
          sections.append(section)
      return sections
  \<close>
  The argument is \<^verbatim>\<open>None\<close> or a dictionary object; the loop appends each key to the
  list built so far.
\<close>

fun append_sections :: "string list \<Rightarrow> string list \<Rightarrow> string list" where
  "append_sections sections [] = sections"
| "append_sections sections (section # rest) = append_sections (sections @ [section]) rest"

definition extract_valid_sections ::
  "addr option \<Rightarrow> 'v heap \<Rightarrow> (('e, 'x) exn + string list) \<times> 'v heap" where
  "extract_valid_sections schema h =
     (case schema of
        None \<Rightarrow> (Inl (ValueError (Text ''No configuration schema provided!'')), h)
      | Some s \<Rightarrow> (Inr (append_sections [] (dict_keys (cells h s))), h))"

subsection \<open>\<^verbatim>\<open>override\<close>\<close>

text \<open>
  \<^verbatim>\<open>
  def override(settings: dict, schema: dict, **kwargs) -> dict:
      if not kwargs:
          return settings
      new_settings = settings
      for key, value in kwargs.items():
          new_settings[key] = value
      validate(settings, schema)
      return new_settings
  \<close>
  \<^verbatim>\<open>kwargs\<close> is a dictionary built for the call, so it is a value, not an object of the
  store. \<^verbatim>\<open>new_settings = settings\<close> binds a second name to the same address. The loop
  writes into the store once for each pair. A keyword named \<^verbatim>\<open>settings\<close> or \<^verbatim>\<open>schema\<close>
  never reaches this body: Python refuses the call (see \<open>extract\<close>).
\<close>

fun store_overrides :: "addr \<Rightarrow> 'v dict \<Rightarrow> 'v heap \<Rightarrow> 'v heap" where
  "store_overrides new_settings [] h = h"
| "store_overrides new_settings ((key, v) # kwargs) h =
     store_overrides new_settings kwargs
       (h\<lparr>cells := (cells h)(new_settings := setitem (cells h new_settings) key v)\<rparr>)"

definition override ::
  "('v, 'e, 'x) rule_engine \<Rightarrow> addr \<Rightarrow> addr \<Rightarrow> 'v dict \<Rightarrow> 'v heap \<Rightarrow> (('e, 'x) exn + addr) \<times> 'v heap" where
  "override V settings schema kwargs h =
     (if kwargs = [] then (Inr settings, h)
      else
        let new_settings = settings;
            h1 = store_overrides new_settings kwargs h
        in case validate V settings schema h1 of
             (Inl e, h2) \<Rightarrow> (Inl e, h2)
           | (Inr u, h2) \<Rightarrow> (Inr new_settings, h2))"

text \<open>The dictionary the loop leaves behind, as a function of the one it started from.\<close>

fun write_overrides :: "'v dict \<Rightarrow> 'v dict \<Rightarrow> 'v dict" where
  "write_overrides d [] = d"
| "write_overrides d ((key, v) # kwargs) = write_overrides (setitem d key v) kwargs"

subsection \<open>The reader\<close>

text \<open>
  Modelled from the spec: \<^verbatim>\<open>file_utils.read_yaml_into_dict\<close> is not among the sources.
  The spec's contract (4.1): given a file path, produce a mapping representing the
  file's structured content, or fail with a \<open>FileError\<close> if the path does not exist or
  the content is not valid structured data. The file system is a parameter; the mapping
  read is a new object of the store.
\<close>

datatype 'v file_content = Structured "'v dict" | Malformed

type_synonym 'v filesystem = "string \<Rightarrow> 'v file_content option"

definition read_yaml_into_dict ::
  "'v filesystem \<Rightarrow> string \<Rightarrow> 'v heap \<Rightarrow> (('e, 'x) exn + addr) \<times> 'v heap" where
  "read_yaml_into_dict fs file_name h =
     (case fs file_name of
        None \<Rightarrow> (Inl FileError, h)
      | Some Malformed \<Rightarrow> (Inl FileError, h)
      | Some (Structured d) \<Rightarrow> (case alloc d h of (a, h1) \<Rightarrow> (Inr a, h1)))"

subsection \<open>\<^verbatim>\<open>parse\<close>\<close>

text \<open>
  \<^verbatim>\<open>
  def parse(file_name: Path, schema: dict) -> dict:
      settings = futils.read_yaml_into_dict(file_name)
      validate(settings, schema)
      return settings
  \<close>
\<close>

definition parse ::
  "('v, 'e, 'x) rule_engine \<Rightarrow> 'v filesystem \<Rightarrow> string \<Rightarrow> addr \<Rightarrow> 'v heap \<Rightarrow>
     (('e, 'x) exn + addr) \<times> 'v heap" where
  "parse V fs file_name schema h =
     (case read_yaml_into_dict fs file_name h of
        (Inl e, h1) \<Rightarrow> (Inl e, h1)
      | (Inr settings, h1) \<Rightarrow>
          (case validate V settings schema h1 of
             (Inl e, h2) \<Rightarrow> (Inl e, h2)
           | (Inr u, h2) \<Rightarrow> (Inr settings, h2)))"

subsection \<open>\<^verbatim>\<open>convert_settings_dict_to_dataclass\<close>\<close>

text \<open>
  \<^verbatim>\<open>
  def convert_settings_dict_to_dataclass(data_class, config_dict, converter=None):
      if converter is not None:
          settings = dacite.from_dict(data_class=data_class, data=config_dict,
                                      config=dacite.Config(type_hooks=converter))
      else:
          settings = dacite.from_dict(data_class=data_class, data=config_dict)
      return settings
  \<close>
  \<^verbatim>\<open>dacite.from_dict\<close> is a library, taken as a parameter: from the target type, the
  contents of the mapping and the optional configuration it gives the typed object or
  raises.
\<close>

datatype 'k config = Config (type_hooks: 'k)

type_synonym ('c, 'v, 'k, 'x, 'o) object_mapper =
  "'c \<Rightarrow> 'v dict \<Rightarrow> 'k config option \<Rightarrow> 'x + 'o"

definition convert_settings_dict_to_dataclass ::
  "('c, 'v, 'k, 'x, 'o) object_mapper \<Rightarrow> 'c \<Rightarrow> addr \<Rightarrow> 'k option \<Rightarrow> 'v heap \<Rightarrow>
     (('e, 'x) exn + 'o) \<times> 'v heap" where
  "convert_settings_dict_to_dataclass from_dict data_class config_dict converter h =
     (case converter of
        Some hooks \<Rightarrow>
          (case from_dict data_class (cells h config_dict) (Some (Config hooks)) of
             Inl x \<Rightarrow> (Inl (LibraryError x), h)
           | Inr settings \<Rightarrow> (Inr settings, h))
      | None \<Rightarrow>
          (case from_dict data_class (cells h config_dict) None of
             Inl x \<Rightarrow> (Inl (LibraryError x), h)
           | Inr settings \<Rightarrow> (Inr settings, h)))"

subsection \<open>\<^verbatim>\<open>extract\<close>\<close>

text \<open>
  \<^verbatim>\<open>
  def extract(data_class, config_file, config_schema, converter=None, **kwargs):
      schema = futils.read_yaml_into_dict(config_schema)
      settings = parse(config_file, schema)
      settings = override(settings, schema, **kwargs)
      settings = convert_settings_dict_to_dataclass(data_class, settings, converter)
      return settings
  \<close>
  The third line passes the overrides on as keyword arguments of \<^verbatim>\<open>override\<close>, whose
  first two parameters, filled by position, are named \<^verbatim>\<open>settings\<close> and \<^verbatim>\<open>schema\<close>. An
  override with one of these two names makes the call itself fail with \<^verbatim>\<open>TypeError\<close>
  (multiple values for the argument) before the body of \<^verbatim>\<open>override\<close> runs, so nothing
  is written. The names of the four parameters of \<^verbatim>\<open>extract\<close> cannot occur among its
  own \<^verbatim>\<open>kwargs\<close>.
\<close>

definition collides :: "'v dict \<Rightarrow> bool" where
  "collides kwargs =
     (''settings'' \<in> set (dict_keys kwargs) \<or> ''schema'' \<in> set (dict_keys kwargs))"

definition "extract" ::
  "('v, 'e, 'x) rule_engine \<Rightarrow> ('c, 'v, 'k, 'x, 'o) object_mapper \<Rightarrow> 'v filesystem \<Rightarrow>
     'c \<Rightarrow> string \<Rightarrow> string \<Rightarrow> 'k option \<Rightarrow> 'v dict \<Rightarrow> 'v heap \<Rightarrow>
     (('e, 'x) exn + 'o) \<times> 'v heap" where
  "extract V from_dict fs data_class config_file config_schema converter kwargs h =
     (case read_yaml_into_dict fs config_schema h of
        (Inl e, h1) \<Rightarrow> (Inl e, h1)
      | (Inr schema, h1) \<Rightarrow>
          (case parse V fs config_file schema h1 of
             (Inl e, h2) \<Rightarrow> (Inl e, h2)
           | (Inr settings, h2) \<Rightarrow>
               (if collides kwargs then (Inl TypeError, h2)
                else
                  (case override V settings schema kwargs h2 of
                     (Inl e, h3) \<Rightarrow> (Inl e, h3)
                   | (Inr settings', h3) \<Rightarrow>
                       convert_settings_dict_to_dataclass from_dict data_class settings'
                         converter h3))))"

subsection \<open>The pipeline in the specification's words\<close>

text \<open>
  The specification describes \<^verbatim>\<open>extract\<close> as four stages run on the contents of the
  mappings. These definitions follow its sections 4.1 to 4.5; they are compared with
  \<open>extract\<close> below.

  4.1: the reader gives the mapping of a file or fails with \<open>FileError\<close>.
\<close>

definition reader_stage :: "'v filesystem \<Rightarrow> string \<Rightarrow> ('e, 'x) exn + 'v dict" where
  "reader_stage fs path =
     (case fs path of
        None \<Rightarrow> Inl FileError
      | Some Malformed \<Rightarrow> Inl FileError
      | Some (Structured d) \<Rightarrow> Inr d)"

text \<open>
  4.2: the validator fails on empty settings, then on an empty schema, and otherwise
  runs the rule set of the schema (as the engine reads it) against the mapping, failing
  with the violations the engine reports.
\<close>

definition validator_stage ::
  "('v, 'e, 'x) rule_engine \<Rightarrow> 'v dict \<Rightarrow> 'v dict \<Rightarrow> ('e, 'x) exn + unit" where
  "validator_stage engine settings schema =
     (if settings = [] then Inl (ValueError (Text ''Empty settings!''))
      else if schema = [] then Inl (ValueError (Text ''Empty schema!''))
      else (case on_validate engine (on_construct engine schema) settings of
              Conforms \<Rightarrow> Inr ()
            | Violates errors \<Rightarrow> Inl (ValueError (TextWith ''Cerberus validation Error: '' errors))
            | Refuses x \<Rightarrow> Inl (LibraryError x)))"

text \<open>
  4.3: with no overrides the overrider returns the settings unchanged, with no
  validation; otherwise it sets each pair at the top level and validates the result.
\<close>

definition overrider_stage ::
  "('v, 'e, 'x) rule_engine \<Rightarrow> 'v dict \<Rightarrow> 'v dict \<Rightarrow> 'v dict \<Rightarrow> ('e, 'x) exn + 'v dict" where
  "overrider_stage engine settings schema overrides =
     (if overrides = [] then Inr settings
      else (case validator_stage engine (write_overrides settings overrides) schema of
              Inl e \<Rightarrow> Inl e
            | Inr u \<Rightarrow> Inr (write_overrides settings overrides)))"

text \<open>4.4: the converter maps the mapping onto the target type, with the hooks if given.\<close>

definition converter_stage ::
  "('c, 'v, 'k, 'x, 'o) object_mapper \<Rightarrow> 'c \<Rightarrow> 'v dict \<Rightarrow> 'k option \<Rightarrow> ('e, 'x) exn + 'o" where
  "converter_stage mapper target_type settings converter_hooks =
     (case mapper target_type settings (map_option Config converter_hooks) of
        Inl x \<Rightarrow> Inl (LibraryError x)
      | Inr obj \<Rightarrow> Inr obj)"

text \<open>
  4.5: load the schema, read and validate the settings, apply the overrides, convert;
  the first stage that fails decides the error. The overrider validates against the
  schema object the first validation has been through, which holds what the engine
  left there.
\<close>

definition extract_pipeline ::
  "('v, 'e, 'x) rule_engine \<Rightarrow> ('c, 'v, 'k, 'x, 'o) object_mapper \<Rightarrow> 'v filesystem \<Rightarrow>
     'c \<Rightarrow> string \<Rightarrow> string \<Rightarrow> 'k option \<Rightarrow> 'v dict \<Rightarrow> ('e, 'x) exn + 'o" where
  "extract_pipeline engine mapper fs target_type config_file schema_file converter_hooks overrides =
     (case reader_stage fs schema_file of
        Inl e \<Rightarrow> Inl e
      | Inr schema \<Rightarrow>
          (case reader_stage fs config_file of
             Inl e \<Rightarrow> Inl e
           | Inr raw \<Rightarrow>
               (case validator_stage engine raw schema of
                  Inl e \<Rightarrow> Inl e
                | Inr u \<Rightarrow>
                    (case overrider_stage engine raw (on_construct engine schema) overrides of
                       Inl e \<Rightarrow> Inl e
                     | Inr settings \<Rightarrow>
                         converter_stage mapper target_type settings converter_hooks))))"

subsection \<open>Concrete inputs\<close>

text \<open>
  A small rule engine to run the definitions on, after the part of cerberus the inputs
  below use. A schema maps a field to its rules, \<^verbatim>\<open>{type: ..., required: ...}\<close>. A field
  of the document that the schema does not name fails (unknown field); a value fails
  when it is not of the \<^verbatim>\<open>type\<close> asked for (\<^verbatim>\<open>integer\<close> or \<^verbatim>\<open>string\<close>) or of none of the
  types of an \<^verbatim>\<open>anyof\<close> list; a field with \<^verbatim>\<open>required: true\<close> fails when the document
  lacks it. The report lists the fields that fail. The constructor rewrites the shortcut
  \<^verbatim>\<open>anyof_type: [t, ...]\<close> of a field into \<^verbatim>\<open>anyof: [{type: t}, ...]\<close>.
\<close>

definition rule_of :: "yaml \<Rightarrow> string \<Rightarrow> yaml option" where
  "rule_of rules name = (case rules of YMap rs \<Rightarrow> map_of rs name | _ \<Rightarrow> None)"

definition type_ok :: "yaml \<Rightarrow> yaml \<Rightarrow> bool" where
  "type_ok t v =
     (if t = YStr ''integer'' then (case v of YInt i \<Rightarrow> True | _ \<Rightarrow> False)
      else if t = YStr ''string'' then (case v of YStr s \<Rightarrow> True | _ \<Rightarrow> False)
      else True)"

definition alternative_ok :: "yaml \<Rightarrow> yaml \<Rightarrow> bool" where
  "alternative_ok v alt = (case rule_of alt ''type'' of None \<Rightarrow> True | Some t \<Rightarrow> type_ok t v)"

definition value_ok :: "yaml \<Rightarrow> yaml \<Rightarrow> bool" where
  "value_ok rules v =
     ((case rule_of rules ''type'' of None \<Rightarrow> True | Some t \<Rightarrow> type_ok t v) \<and>
      (case rule_of rules ''anyof'' of
         Some (YSeq alts) \<Rightarrow> list_ex (alternative_ok v) alts
       | _ \<Rightarrow> True))"

definition failed_fields :: "yaml dict \<Rightarrow> yaml dict \<Rightarrow> string list" where
  "failed_fields schema doc =
     map fst (filter (\<lambda>(k, v). case map_of schema k of
                                  None \<Rightarrow> True
                                | Some rules \<Rightarrow> \<not> value_ok rules v) doc) @
     map fst (filter (\<lambda>(k, rules). rule_of rules ''required'' = Some (YBool True) \<and>
                                    map_of doc k = None) schema)"

definition expand_shortcut :: "yaml \<Rightarrow> yaml" where
  "expand_shortcut rules =
     (case rules of
        YMap rs \<Rightarrow>
          (case map_of rs ''anyof_type'' of
             Some (YSeq ts) \<Rightarrow>
               YMap (setitem (filter (\<lambda>(k, r). k \<noteq> ''anyof_type'') rs) ''anyof''
                       (YSeq (map (\<lambda>t. YMap [(''type'', t)]) ts)))
           | _ \<Rightarrow> YMap rs)
      | _ \<Rightarrow> rules)"

definition simple_rules :: "(yaml, string list, unit) rule_engine" where
  "simple_rules =
     \<lparr>on_construct = map (\<lambda>(k, rules). (k, expand_shortcut rules)),
      on_validate = (\<lambda>schema doc.
        if failed_fields schema doc = [] then Conforms
        else Violates (failed_fields schema doc))\<rparr>"

text \<open>Two empty dictionaries, at addresses 0 and 1.\<close>

definition two_empty :: "yaml heap" where
  "two_empty = snd (alloc [] (snd (alloc [] empty_heap)))"

text \<open>The schema \<^verbatim>\<open>{speed: {type: integer, required: true}, name: {type: string}}\<close>.\<close>

definition ship_schema :: "yaml dict" where
  "ship_schema =
     [(''speed'', YMap [(''type'', YStr ''integer''), (''required'', YBool True)]),
      (''name'', YMap [(''type'', YStr ''string'')])]"

text \<open>Settings \<^verbatim>\<open>{speed: 3, name: "a"}\<close> at address 0 and that schema at address 1.\<close>

definition ship_heap :: "yaml heap" where
  "ship_heap =
     snd (alloc ship_schema
       (snd (alloc [(''speed'', YInt 3), (''name'', YStr ''a'')] empty_heap)))"


text \<open>Settings \<^verbatim>\<open>{speed: 3}\<close> at address 0 and an empty schema at address 1.\<close>

definition bare_heap :: "yaml heap" where
  "bare_heap = snd (alloc [] (snd (alloc [(''speed'', YInt 3)] empty_heap)))"



text \<open>
  An object mapper to run \<open>extract\<close> on: the target type is a list of field names, the
  object is the list of their values, and a field the mapping lacks is an error.
\<close>

fun pick_fields :: "(string list, yaml, unit, unit, yaml list) object_mapper" where
  "pick_fields [] d config = Inr []"
| "pick_fields (name # names) d config =
     (case map_of d name of
        None \<Rightarrow> Inl ()
      | Some v \<Rightarrow> (case pick_fields names d config of Inl x \<Rightarrow> Inl x | Inr vs \<Rightarrow> Inr (v # vs)))"

text \<open>
  A file system with the settings \<^verbatim>\<open>{speed: 3, name: "a"}\<close> in \<^verbatim>\<open>ship.yaml\<close>, the schema
  above in \<^verbatim>\<open>schema.yaml\<close>, and no other file.
\<close>

definition ship_files :: "yaml filesystem" where
  "ship_files path =
     (if path = ''ship.yaml'' then Some (Structured [(''speed'', YInt 3), (''name'', YStr ''a'')])
      else if path = ''schema.yaml'' then Some (Structured ship_schema)
      else None)"

section \<open>Properties\<close>

subsection \<open>Helper facts\<close>

lemma append_sections_eq: "append_sections acc ks = acc @ ks"
  by (induction ks arbitrary: acc) simp_all

lemma cells_two_empty: "cells two_empty a = []"
  by (simp add: two_empty_def alloc_def empty_heap_def)

lemma cells_ship_heap_0: "cells ship_heap 0 = [(''speed'', YInt 3), (''name'', YStr ''a'')]"
  by (simp add: ship_heap_def alloc_def empty_heap_def)

lemma cells_ship_heap_1: "cells ship_heap (Suc 0) = ship_schema"
  by (simp add: ship_heap_def alloc_def empty_heap_def)



lemma cells_bare_heap_0: "cells bare_heap 0 = [(''speed'', YInt 3)]"
  by (simp add: bare_heap_def alloc_def empty_heap_def)

lemma cells_bare_heap_1: "cells bare_heap (Suc 0) = []"
  by (simp add: bare_heap_def alloc_def empty_heap_def)





lemma same_cell: "f (Suc 0) = c \<Longrightarrow> f(0 := d, Suc 0 := c) = f(0 := d)"
  by (auto simp: fun_eq_iff)

lemma ship_schema_nonempty: "ship_schema \<noteq> []"
  by (simp add: ship_schema_def)

lemma construct_ship_schema: "on_construct simple_rules ship_schema = ship_schema"
  by (simp add: simple_rules_def ship_schema_def expand_shortcut_def)




lemma judge_ship:
  "on_validate simple_rules ship_schema [(''speed'', YInt 3), (''name'', YStr ''a'')] = Conforms"
  by (simp add: simple_rules_def ship_schema_def failed_fields_def value_ok_def rule_of_def
      type_ok_def)

lemma judge_ship_7:
  "on_validate simple_rules ship_schema [(''speed'', YInt 7), (''name'', YStr ''a'')] = Conforms"
  by (simp add: simple_rules_def ship_schema_def failed_fields_def value_ok_def rule_of_def
      type_ok_def)

lemma judge_ship_fast:
  "on_validate simple_rules ship_schema [(''speed'', YStr ''fast''), (''name'', YStr ''a'')] =
     Violates [''speed'']"
  by (simp add: simple_rules_def ship_schema_def failed_fields_def value_ok_def rule_of_def
      type_ok_def)





lemma setitem_nonempty: "setitem d key v \<noteq> []"
  by (cases d) (auto split: if_splits)

lemma map_of_setitem: "map_of (setitem d key v) = (map_of d)(key \<mapsto> v)"
  by (induction d) (auto simp: fun_eq_iff)



lemma write_overrides_nonempty: "kwargs \<noteq> [] \<Longrightarrow> write_overrides d kwargs \<noteq> []"
proof (induction kwargs arbitrary: d)
  case Nil
  then show ?case by simp
next
  case (Cons p kwargs)
  obtain key v where p: "p = (key, v)" by (cases p)
  show ?case
  proof (cases "kwargs = []")
    case True
    with p show ?thesis by (simp add: setitem_nonempty)
  next
    case False
    with p Cons.IH show ?thesis by simp
  qed
qed

lemma map_of_write_overrides_other:
  "k \<notin> fst ` set kwargs \<Longrightarrow> map_of (write_overrides d kwargs) k = map_of d k"
  by (induction kwargs arbitrary: d) (auto simp: map_of_setitem)

lemma map_of_write_overrides_written:
  "distinct (map fst kwargs) \<Longrightarrow> (k, v) \<in> set kwargs \<Longrightarrow>
   map_of (write_overrides d kwargs) k = Some v"
proof (induction kwargs arbitrary: d)
  case Nil
  then show ?case by simp
next
  case (Cons p kwargs)
  obtain key w where p: "p = (key, w)" by (cases p)
  show ?case
  proof (cases "(k, v) = p")
    case True
    with p Cons.prems have "k \<notin> fst ` set kwargs" by auto
    with True p show ?thesis
      by (simp add: map_of_write_overrides_other map_of_setitem)
  next
    case False
    with Cons.prems have "(k, v) \<in> set kwargs" and "distinct (map fst kwargs)" by auto
    with p Cons.IH show ?thesis by simp
  qed
qed


lemma store_overrides_eq:
  "store_overrides r kwargs h = h\<lparr>cells := (cells h)(r := write_overrides (cells h r) kwargs)\<rparr>"
  by (induction kwargs arbitrary: h) auto

lemma cells_store_overrides:
  "cells (store_overrides r kwargs h) = (cells h)(r := write_overrides (cells h r) kwargs)"
  by (simp add: store_overrides_eq)

lemma next_addr_store_overrides: "next_addr (store_overrides r kwargs h) = next_addr h"
  by (simp add: store_overrides_eq)

lemma validate_eq:
  "validate V settings schema h =
     (if cells h settings = [] then (Inl (ValueError (Text ''Empty settings!'')), h)
      else if cells h schema = [] then (Inl (ValueError (Text ''Empty schema!'')), h)
      else
        ((case run_validator V schema settings (construct_validator V schema h) of
            Conforms \<Rightarrow> Inr ()
          | Violates errors \<Rightarrow> Inl (ValueError (TextWith ''Cerberus validation Error: '' errors))
          | Refuses x \<Rightarrow> Inl (LibraryError x)),
         construct_validator V schema h))"
  by (simp add: validate_def Let_def split: verdict.split)

lemma validate_leaves:
  "snd (validate V settings schema h) =
     (if cells h settings = [] \<or> cells h schema = [] then h else construct_validator V schema h)"
  by (simp add: validate_eq)

lemma validate_value:
  "schema \<noteq> settings \<Longrightarrow>
   fst (validate V settings schema h) = validator_stage V (cells h settings) (cells h schema)"
  by (simp add: validate_eq validator_stage_def run_validator_def construct_validator_def
      split: verdict.split)

lemma override_unfold:
  assumes "kwargs \<noteq> []"
  shows "override V settings schema kwargs h =
           ((case fst (validate V settings schema (store_overrides settings kwargs h)) of
               Inl e \<Rightarrow> Inl e
             | Inr u \<Rightarrow> Inr settings),
            snd (validate V settings schema (store_overrides settings kwargs h)))"
  using assms by (simp add: override_def Let_def split: prod.split sum.split)

lemma override_written_cell:
  assumes "kwargs \<noteq> []"
  shows "cells (snd (override V settings schema kwargs h)) settings =
           (if schema = settings then on_construct V (write_overrides (cells h settings) kwargs)
            else write_overrides (cells h settings) kwargs)"
proof -
  let ?hw = "store_overrides settings kwargs h"
  have w: "cells ?hw settings = write_overrides (cells h settings) kwargs"
    by (simp add: cells_store_overrides)
  with assms have ne: "cells ?hw settings \<noteq> []"
    by (simp add: write_overrides_nonempty)
  show ?thesis
  proof (cases "schema = settings")
    case True
    with ne w assms show ?thesis
      by (simp add: override_unfold validate_leaves construct_validator_def)
  next
    case False
    with w assms show ?thesis
      by (simp add: override_unfold validate_leaves construct_validator_def)
  qed
qed

lemma read_yaml_into_dict_stage:
  "read_yaml_into_dict fs p h =
     (case reader_stage fs p of
        Inl e \<Rightarrow> (Inl e, h)
      | Inr d \<Rightarrow> (Inr (next_addr h), snd (alloc d h)))"
  by (simp add: read_yaml_into_dict_def reader_stage_def alloc_def
      split: option.split file_content.split)

lemma cells_alloc: "cells (snd (alloc d h)) = (cells h)(next_addr h := d)"
  by (simp add: alloc_def)

lemma next_addr_alloc: "next_addr (snd (alloc d h)) = Suc (next_addr h)"
  by (simp add: alloc_def)

lemma parse_stage:
  "parse V fs p schema h =
     (case reader_stage fs p of
        Inl e \<Rightarrow> (Inl e, h)
      | Inr d \<Rightarrow>
          (case fst (validate V (next_addr h) schema (snd (alloc d h))) of
             Inl e \<Rightarrow> (Inl e, snd (validate V (next_addr h) schema (snd (alloc d h))))
           | Inr u \<Rightarrow> (Inr (next_addr h), snd (validate V (next_addr h) schema (snd (alloc d h))))))"
  by (simp add: parse_def read_yaml_into_dict_stage split: sum.split prod.split)

lemma override_stage:
  assumes "schema \<noteq> settings"
  shows "fst (override V settings schema kwargs h) =
           (case overrider_stage V (cells h settings) (cells h schema) kwargs of
              Inl e \<Rightarrow> Inl e
            | Inr d \<Rightarrow> Inr settings)"
proof (cases "kwargs = []")
  case True
  then show ?thesis
    by (simp add: override_def overrider_stage_def)
next
  case False
  with assms show ?thesis
    by (simp add: override_unfold validate_value overrider_stage_def cells_store_overrides
        split: sum.split)
qed

lemma override_cell:
  assumes "schema \<noteq> settings"
  shows "cells (snd (override V settings schema kwargs h)) settings =
           write_overrides (cells h settings) kwargs"
proof (cases "kwargs = []")
  case True
  then show ?thesis
    by (simp add: override_def)
next
  case False
  with assms show ?thesis
    by (simp add: override_written_cell)
qed

lemma convert_stage:
  "convert_settings_dict_to_dataclass from_dict data_class config_dict converter h =
     (converter_stage from_dict data_class (cells h config_dict) converter, h)"
  by (simp add: convert_settings_dict_to_dataclass_def converter_stage_def
      split: option.split sum.split)

subsection \<open>\<^verbatim>\<open>extract_valid_sections\<close>\<close>

text \<open>
  C1. The claim: on an empty schema \<^verbatim>\<open>extract_valid_sections\<close> fails with a
  \<^verbatim>\<open>ValueError\<close>. The code tests \<^verbatim>\<open>schema is None\<close> only, so on the empty dictionary
  the loop runs zero times and the call returns the empty list.
\<close>

theorem extract_valid_sections_empty_dict:
  "fst (extract_valid_sections (Some 0) two_empty) = Inr []"
  by (simp add: extract_valid_sections_def cells_two_empty dict_keys_def)

text \<open>
  C3. On a non-empty schema \<^verbatim>\<open>extract_valid_sections\<close> returns the list of the
  schema's top-level keys, in the schema's order, and leaves the store as it was.
\<close>

theorem extract_valid_sections_keys:
  assumes "cells h s \<noteq> []"
  shows "extract_valid_sections (Some s) h = (Inr (map fst (cells h s)), h)"
  by (simp add: extract_valid_sections_def append_sections_eq dict_keys_def)

theorem extract_valid_sections_keys_witness:
  "cells ship_heap (Suc 0) \<noteq> [] \<and>
   extract_valid_sections (Some (Suc 0)) ship_heap = (Inr [''speed'', ''name''], ship_heap)"
proof -
  have ne: "cells ship_heap (Suc 0) \<noteq> []"
    by (simp add: cells_ship_heap_1 ship_schema_def)
  show ?thesis
    using ne extract_valid_sections_keys [OF ne] by (simp add: cells_ship_heap_1 ship_schema_def)
qed

subsection \<open>\<^verbatim>\<open>validate\<close>\<close>

text \<open>
  C2. The claim: empty settings give the error \<^verbatim>\<open>Empty settings!\<close> and an empty schema
  gives the error \<^verbatim>\<open>Empty schema!\<close>, whatever the other argument holds. The settings
  are tested first, so when both are empty the error is the one for the settings: the
  second half holds only when the settings are not empty. First the input where the
  claim fails, then the amended claim.
\<close>

theorem validate_both_empty_counterexample:
  "cells two_empty (Suc 0) = [] \<and>
   fst (validate simple_rules 0 (Suc 0) two_empty) \<noteq> Inl (ValueError (Text ''Empty schema!''))"
  by (simp add: validate_def cells_two_empty)

theorem validate_empty_inputs:
  "(cells h settings = [] \<longrightarrow>
      validate V settings schema h = (Inl (ValueError (Text ''Empty settings!'')), h)) \<and>
   (cells h settings \<noteq> [] \<and> cells h schema = [] \<longrightarrow>
      validate V settings schema h = (Inl (ValueError (Text ''Empty schema!'')), h))"
  by (simp add: validate_def)

theorem validate_empty_inputs_witness:
  "cells two_empty 0 = [] \<and>
   validate simple_rules 0 (Suc 0) two_empty =
     (Inl (ValueError (Text ''Empty settings!'')), two_empty) \<and>
   cells bare_heap 0 \<noteq> [] \<and> cells bare_heap (Suc 0) = [] \<and>
   validate simple_rules 0 (Suc 0) bare_heap =
     (Inl (ValueError (Text ''Empty schema!'')), bare_heap)"
  using validate_empty_inputs [of two_empty 0 simple_rules "Suc 0"]
    validate_empty_inputs [of bare_heap 0 simple_rules "Suc 0"]
  by (simp add: cells_two_empty cells_bare_heap_0 cells_bare_heap_1)






subsection \<open>\<^verbatim>\<open>override\<close>\<close>

text \<open>
  C4. With no keyword overrides \<^verbatim>\<open>override\<close> returns the settings object it was given
  and leaves the store untouched. This holds for every rule engine, every settings
  object and every schema, empty or invalid ones too: nothing is validated and nothing
  is raised.
\<close>

theorem override_no_kwargs: "override V settings schema [] h = (Inr settings, h)"
  by (simp add: override_def)

theorem override_no_kwargs_witness:
  "override simple_rules 0 (Suc 0) [] two_empty = (Inr 0, two_empty) \<and>
   fst (validate simple_rules 0 (Suc 0) two_empty) = Inl (ValueError (Text ''Empty settings!''))"
  using override_no_kwargs [of simple_rules 0 "Suc 0" two_empty]
  by (simp add: validate_def cells_two_empty)



text \<open>
  C6. A call with at least one override that returns, returns the address it was given
  as settings: the result is the caller's own object, now holding the overrides, and no
  new object has been made. (Should the caller pass one and the same object as settings
  and as schema, that object has also been through the engine's constructor.)
\<close>

theorem override_returns_same_object:
  assumes "kwargs \<noteq> []" and "override V settings schema kwargs h = (Inr r, h')"
  shows "r = settings \<and>
         cells h' settings =
           (if schema = settings then on_construct V (write_overrides (cells h settings) kwargs)
            else write_overrides (cells h settings) kwargs) \<and>
         next_addr h' = next_addr h"
proof -
  from assms have r: "Inr r =
      (case fst (validate V settings schema (store_overrides settings kwargs h)) of
         Inl e \<Rightarrow> Inl e
       | Inr u \<Rightarrow> Inr settings)"
    and h': "h' = snd (validate V settings schema (store_overrides settings kwargs h))"
    by (auto simp: override_unfold)
  from r have "r = settings"
    by (cases "fst (validate V settings schema (store_overrides settings kwargs h))") simp_all
  moreover have "cells h' settings =
      (if schema = settings then on_construct V (write_overrides (cells h settings) kwargs)
       else write_overrides (cells h settings) kwargs)"
    using override_written_cell [OF assms(1), of V settings schema h] assms(2) by simp
  moreover have "next_addr h' = next_addr h"
    by (simp add: h' validate_leaves construct_validator_def next_addr_store_overrides)
  ultimately show ?thesis by blast
qed

theorem override_returns_same_object_witness:
  "[(''speed'', YInt 7)] \<noteq> [] \<and>
   override simple_rules 0 (Suc 0) [(''speed'', YInt 7)] ship_heap =
     (Inr 0, ship_heap\<lparr>cells := (cells ship_heap)(0 := [(''speed'', YInt 7), (''name'', YStr ''a'')])\<rparr>) \<and>
   cells (ship_heap\<lparr>cells := (cells ship_heap)(0 := [(''speed'', YInt 7), (''name'', YStr ''a'')])\<rparr>) 0 =
     write_overrides (cells ship_heap 0) [(''speed'', YInt 7)] \<and>
   cells ship_heap 0 \<noteq> write_overrides (cells ship_heap 0) [(''speed'', YInt 7)]"
proof -
  let ?kw = "[(''speed'', YInt 7)]"
  let ?h' = "ship_heap\<lparr>cells := (cells ship_heap)(0 := [(''speed'', YInt 7), (''name'', YStr ''a'')])\<rparr>"
  have ne: "?kw \<noteq> []"
    by simp
  have run: "override simple_rules 0 (Suc 0) ?kw ship_heap = (Inr 0, ?h')"
    by (simp add: override_unfold validate_eq store_overrides_eq run_validator_def
        construct_validator_def cells_ship_heap_0 cells_ship_heap_1 construct_ship_schema
        judge_ship_7 ship_schema_nonempty same_cell)
  show ?thesis
    using override_returns_same_object [OF ne run] run
    by (simp add: cells_ship_heap_0)
qed

text \<open>
  C10. A call with at least one override that raises, raises what validating the
  written store raised, and by then the writes are done: the caller's settings object
  holds every override value and is not put back. (Should the caller pass one and the
  same object as settings and as schema, that object has also been through the engine's
  constructor.)
\<close>

theorem override_not_atomic:
  assumes "kwargs \<noteq> []" and "distinct (map fst kwargs)"
    and "override V settings schema kwargs h = (Inl e, h')"
  shows "fst (validate V settings schema (store_overrides settings kwargs h)) = Inl e \<and>
         cells h' settings =
           (if schema = settings then on_construct V (write_overrides (cells h settings) kwargs)
            else write_overrides (cells h settings) kwargs) \<and>
         (schema \<noteq> settings \<longrightarrow> (\<forall>(k, v) \<in> set kwargs. map_of (cells h' settings) k = Some v))"
proof -
  from assms(1,3) have e: "Inl e =
      (case fst (validate V settings schema (store_overrides settings kwargs h)) of
         Inl e' \<Rightarrow> Inl e'
       | Inr u \<Rightarrow> Inr settings)"
    by (auto simp: override_unfold)
  from e have "fst (validate V settings schema (store_overrides settings kwargs h)) = Inl e"
    by (cases "fst (validate V settings schema (store_overrides settings kwargs h))") simp_all
  moreover have written: "cells h' settings =
      (if schema = settings then on_construct V (write_overrides (cells h settings) kwargs)
       else write_overrides (cells h settings) kwargs)"
    using override_written_cell [OF assms(1), of V settings schema h] assms(3) by simp
  moreover have "schema \<noteq> settings \<longrightarrow>
      (\<forall>(k, v) \<in> set kwargs. map_of (cells h' settings) k = Some v)"
    using assms(2) by (auto simp: written map_of_write_overrides_written)
  ultimately show ?thesis by blast
qed

theorem override_not_atomic_witness:
  "[(''speed'', YStr ''fast'')] \<noteq> [] \<and> distinct (map fst [(''speed'', YStr ''fast'')]) \<and>
   override simple_rules 0 (Suc 0) [(''speed'', YStr ''fast'')] ship_heap =
     (Inl (ValueError (TextWith ''Cerberus validation Error: '' [''speed''])),
      ship_heap\<lparr>cells := (cells ship_heap)(0 := [(''speed'', YStr ''fast''), (''name'', YStr ''a'')])\<rparr>) \<and>
   map_of (cells ship_heap 0) ''speed'' = Some (YInt 3) \<and>
   map_of (cells (ship_heap\<lparr>cells := (cells ship_heap)(0 := [(''speed'', YStr ''fast''), (''name'', YStr ''a'')])\<rparr>) 0)
     ''speed'' = Some (YStr ''fast'')"
proof -
  let ?kw = "[(''speed'', YStr ''fast'')]"
  let ?h' = "ship_heap\<lparr>cells := (cells ship_heap)(0 := [(''speed'', YStr ''fast''), (''name'', YStr ''a'')])\<rparr>"
  have ne: "?kw \<noteq> []" and di: "distinct (map fst ?kw)"
    by simp_all
  have run: "override simple_rules 0 (Suc 0) ?kw ship_heap =
      (Inl (ValueError (TextWith ''Cerberus validation Error: '' [''speed''])), ?h')"
    by (simp add: override_unfold validate_eq store_overrides_eq run_validator_def
        construct_validator_def cells_ship_heap_0 cells_ship_heap_1 construct_ship_schema
        judge_ship_fast ship_schema_nonempty same_cell)
  show ?thesis
    using override_not_atomic [OF ne di run] run
    by (simp add: cells_ship_heap_0)
qed

subsection \<open>\<^verbatim>\<open>extract\<close>\<close>

text \<open>
  C9. For every target type, configuration file, schema file, optional converter and
  overrides, and from any store, the outcome of \<^verbatim>\<open>extract\<close> is the outcome of the staged
  pipeline: read the schema, read and validate the configuration, apply the overrides
  (validating again when there are any), convert. The outcome is the converted object
  when every stage succeeds and otherwise the error of the first stage that fails, with
  no object. When an override is named \<^verbatim>\<open>settings\<close> or \<^verbatim>\<open>schema\<close>, the stage that
  applies the overrides is the one that fails, with \<^verbatim>\<open>TypeError\<close>, once the schema has
  been read and the configuration has been read and validated.
\<close>

theorem extract_is_pipeline:
  fixes V :: "('v, 'e, 'x) rule_engine"
  shows "(\<not> collides kwargs \<longrightarrow>
            fst (extract V from_dict fs data_class config_file config_schema converter kwargs h) =
              extract_pipeline V from_dict fs data_class config_file config_schema converter kwargs) \<and>
         (collides kwargs \<longrightarrow>
            fst (extract V from_dict fs data_class config_file config_schema converter kwargs h) =
              (case reader_stage fs config_schema of
                 Inl e \<Rightarrow> Inl e
               | Inr schema \<Rightarrow>
                   (case reader_stage fs config_file of
                      Inl e \<Rightarrow> Inl e
                    | Inr raw \<Rightarrow>
                        (case validator_stage V raw schema of
                           Inl e \<Rightarrow> Inl e
                         | Inr u \<Rightarrow> Inl TypeError))))"
proof (cases "reader_stage fs config_schema :: ('e, 'x) exn + 'v dict")
  case (Inl e)
  then show ?thesis
    by (simp add: extract_def extract_pipeline_def read_yaml_into_dict_stage)
next
  case S: (Inr schema)
  let ?a = "next_addr h"
  let ?h1 = "snd (alloc schema h)"
  show ?thesis
  proof (cases "reader_stage fs config_file :: ('e, 'x) exn + 'v dict")
    case (Inl e)
    with S show ?thesis
      by (simp add: extract_def extract_pipeline_def read_yaml_into_dict_stage parse_stage)
  next
    case M: (Inr raw)
    let ?b = "Suc ?a"
    let ?h2 = "snd (alloc raw ?h1)"
    let ?h3 = "snd (validate V ?b ?a ?h2)"
    have b: "next_addr ?h1 = ?b"
      by (simp add: next_addr_alloc)
    have neq: "?a \<noteq> ?b"
      by simp
    have raw: "cells ?h2 ?b = raw" and schema: "cells ?h2 ?a = schema"
      by (simp_all add: cells_alloc next_addr_alloc)
    have v: "fst (validate V ?b ?a ?h2) = validator_stage V raw schema"
      using validate_value [OF neq, of V ?h2] by (simp add: raw schema)
    show ?thesis
    proof (cases "validator_stage V raw schema")
      case (Inl e)
      with S M b v show ?thesis
        by (simp add: extract_def extract_pipeline_def read_yaml_into_dict_stage parse_stage)
    next
      case ok: (Inr u)
      then have ne: "raw \<noteq> []" "schema \<noteq> []"
        by (auto simp: validator_stage_def split: if_splits)
      have p: "parse V fs config_file ?a ?h1 = (Inr ?b, ?h3)"
        using M b v ok by (simp add: parse_stage)
      have h3: "?h3 = construct_validator V ?a ?h2"
        using ne by (simp add: validate_leaves raw schema)
      have raw3: "cells ?h3 ?b = raw" and schema3: "cells ?h3 ?a = on_construct V schema"
        by (simp_all add: h3 construct_validator_def raw schema)
      show ?thesis
      proof (cases "collides kwargs")
        case True
        with S M ok p show ?thesis
          by (simp add: extract_def read_yaml_into_dict_stage)
      next
        case False
        have o: "fst (override V ?b ?a kwargs ?h3) =
            (case overrider_stage V raw (on_construct V schema) kwargs of
               Inl e \<Rightarrow> Inl e
             | Inr d \<Rightarrow> Inr ?b)"
          using override_stage [OF neq, of V kwargs ?h3] by (simp add: raw3 schema3)
        have c: "cells (snd (override V ?b ?a kwargs ?h3)) ?b = write_overrides raw kwargs"
          using override_cell [OF neq, of V kwargs ?h3] by (simp add: raw3)
        obtain r h4 where run: "override V ?b ?a kwargs ?h3 = (r, h4)"
          by (cases "override V ?b ?a kwargs ?h3")
        show ?thesis
        proof (cases "overrider_stage V raw (on_construct V schema) kwargs")
          case (Inl e)
          with o run have "r = Inl e" by simp
          with Inl False S M ok p run show ?thesis
            by (simp add: extract_def extract_pipeline_def read_yaml_into_dict_stage)
        next
          case (Inr settings)
          then have w: "settings = write_overrides raw kwargs"
            by (auto simp: overrider_stage_def split: if_splits sum.splits)
          from Inr o run have r: "r = Inr ?b" by simp
          from c run have "cells h4 ?b = write_overrides raw kwargs" by simp
          with Inr w r False S M ok p run show ?thesis
            by (simp add: extract_def extract_pipeline_def read_yaml_into_dict_stage
                convert_stage)
        qed
      qed
    qed
  qed
qed

theorem extract_is_pipeline_witness:
  "\<not> collides [(''speed'', YInt 7)] \<and>
   fst (extract simple_rules pick_fields ship_files [''speed'', ''name''] ''ship.yaml''
          ''schema.yaml'' None [(''speed'', YInt 7)] empty_heap) =
     Inr [YInt 7, YStr ''a''] \<and>
   \<not> collides [(''speed'', YStr ''fast'')] \<and>
   fst (extract simple_rules pick_fields ship_files [''speed'', ''name''] ''ship.yaml''
          ''schema.yaml'' None [(''speed'', YStr ''fast'')] empty_heap) =
     Inl (ValueError (TextWith ''Cerberus validation Error: '' [''speed''])) \<and>
   \<not> collides ([] :: yaml dict) \<and>
   fst (extract simple_rules pick_fields ship_files [''speed'', ''name''] ''boat.yaml''
          ''schema.yaml'' None [] empty_heap) =
     Inl FileError \<and>
   collides [(''settings'', YInt 1)] \<and>
   fst (extract simple_rules pick_fields ship_files [''speed'', ''name''] ''ship.yaml''
          ''schema.yaml'' None [(''settings'', YInt 1)] empty_heap) =
     Inl TypeError"
proof -
  have c1: "\<not> collides [(''speed'', YInt 7)]" and c2: "\<not> collides [(''speed'', YStr ''fast'')]"
    and c3: "\<not> collides ([] :: yaml dict)" and c4: "collides [(''settings'', YInt 1)]"
    by (simp_all add: collides_def dict_keys_def)
  have v: "validator_stage simple_rules [(''speed'', YInt 3), (''name'', YStr ''a'')] ship_schema =
      Inr ()"
    by (simp add: validator_stage_def ship_schema_nonempty construct_ship_schema judge_ship)
  have "extract_pipeline simple_rules pick_fields ship_files [''speed'', ''name''] ''ship.yaml''
          ''schema.yaml'' None [(''speed'', YInt 7)] = Inr [YInt 7, YStr ''a'']"
    by (simp add: extract_pipeline_def reader_stage_def ship_files_def v overrider_stage_def
        validator_stage_def converter_stage_def ship_schema_nonempty construct_ship_schema
        judge_ship judge_ship_7)
  moreover have "extract_pipeline simple_rules pick_fields ship_files [''speed'', ''name'']
          ''ship.yaml'' ''schema.yaml'' None [(''speed'', YStr ''fast'')] =
        Inl (ValueError (TextWith ''Cerberus validation Error: '' [''speed'']))"
    by (simp add: extract_pipeline_def reader_stage_def ship_files_def v overrider_stage_def
        validator_stage_def converter_stage_def ship_schema_nonempty construct_ship_schema
        judge_ship judge_ship_fast)
  moreover have "extract_pipeline simple_rules pick_fields ship_files [''speed'', ''name'']
          ''boat.yaml'' ''schema.yaml'' None [] = Inl FileError"
    by (simp add: extract_pipeline_def reader_stage_def ship_files_def)
  moreover have "(case reader_stage ship_files ''schema.yaml'' of
        Inl e \<Rightarrow> Inl e
      | Inr schema \<Rightarrow>
          (case reader_stage ship_files ''ship.yaml'' of
             Inl e \<Rightarrow> Inl e
           | Inr raw \<Rightarrow>
               (case validator_stage simple_rules raw schema of
                  Inl e \<Rightarrow> Inl e
                | Inr u \<Rightarrow> Inl TypeError))) = (Inl TypeError :: (string list, unit) exn + yaml list)"
    by (simp add: reader_stage_def ship_files_def v)
  ultimately show ?thesis
    using c1 c2 c3 c4
      extract_is_pipeline [of "[(''speed'', YInt 7)]" simple_rules pick_fields ship_files
        "[''speed'', ''name'']" "''ship.yaml''" "''schema.yaml''" None empty_heap]
      extract_is_pipeline [of "[(''speed'', YStr ''fast'')]" simple_rules pick_fields ship_files
        "[''speed'', ''name'']" "''ship.yaml''" "''schema.yaml''" None empty_heap]
      extract_is_pipeline [of "[]" simple_rules pick_fields ship_files
        "[''speed'', ''name'']" "''boat.yaml''" "''schema.yaml''" None empty_heap]
      extract_is_pipeline [of "[(''settings'', YInt 1)]" simple_rules pick_fields ship_files
        "[''speed'', ''name'']" "''ship.yaml''" "''schema.yaml''" None empty_heap]
    by simp
qed

end
